theory Spec2Isabelle
  imports Complex_Main "HOL-Library.Sublist"
begin

text \<open>
  A model of \<open>main.py\<close>, the concurrent book scraper: \<open>fetch_page\<close>, the three
  extractors \<open>scrape_books_toscrape\<close>, \<open>scrape_openlibrary_search\<close> and
  \<open>scrape_gutenberg_top\<close>, the orchestrator \<open>run_all_scrapers\<close> and the aggregator
  \<open>get_price_comparison\<close>. An exception is a value (\<open>Inl\<close>); the log, the clock and
  \<open>self.results\<close> are passed as a state; what the libraries do (HTTP, HTML and JSON
  parsing, \<open>urljoin\<close>) is a parameter of the model.
\<close>

section \<open>Python values\<close>

text \<open>
  A Python \<open>str\<close> is a sequence of Unicode code points; it is modelled as the list of
  its code points, so that the pound sign (U+00A3) and the mis-encoding remnant U+00C2
  are one element each, as they are for \<open>str.replace\<close>. A literal of the source is written
  \<open>str ''...''\<close>.
\<close>

type_synonym pystr = "nat list"

definition str :: "string \<Rightarrow> pystr" where
  "str s = map of_char s"

text \<open>The exceptions the modelled code can meet (all subclasses of \<open>Exception\<close>).\<close>

datatype pyerror =
    AttributeError | TypeError | KeyError | IndexError | ValueError
  | TimeoutError | ClientError | ParserError

text \<open>
  A Python \<open>float\<close>: a finite value (by its exact value; rounding to binary64 is not
  modelled, and \<open>-0.0\<close> is \<open>0.0\<close>, to which it compares equal), the two infinities,
  or NaN.
\<close>

datatype pyfloat = Finite rat | PosInf | NegInf | NaN

text \<open>The values \<open>json.loads\<close> produces, and \<open>None\<close>.\<close>

datatype pyval =
    PNone
  | PBool bool
  | PInt int
  | PFloat pyfloat
  | PStr pystr
  | PList "pyval list"
  | PDict "(pystr \<times> pyval) list"

text \<open>Truth value testing (\<open>if x\<close>, \<open>x or y\<close>).\<close>

fun float_truthy :: "pyfloat \<Rightarrow> bool" where
  "float_truthy (Finite q) = (q \<noteq> 0)"
| "float_truthy _ = True"

fun truthy :: "pyval \<Rightarrow> bool" where
  "truthy PNone = False"
| "truthy (PBool b) = b"
| "truthy (PInt i) = (i \<noteq> 0)"
| "truthy (PFloat f) = float_truthy f"
| "truthy (PStr s) = (s \<noteq> [])"
| "truthy (PList xs) = (xs \<noteq> [])"
| "truthy (PDict kvs) = (kvs \<noteq> [])"

text \<open>\<open>x < y\<close> on floats: every comparison with NaN is false.\<close>

fun float_lt :: "pyfloat \<Rightarrow> pyfloat \<Rightarrow> bool" where
  "float_lt NaN _ = False"
| "float_lt _ NaN = False"
| "float_lt (Finite a) (Finite b) = (a < b)"
| "float_lt (Finite a) PosInf = True"
| "float_lt (Finite a) NegInf = False"
| "float_lt PosInf _ = False"
| "float_lt NegInf NegInf = False"
| "float_lt NegInf _ = True"

text \<open>\<open>x <= y\<close> on floats.\<close>

fun float_le :: "pyfloat \<Rightarrow> pyfloat \<Rightarrow> bool" where
  "float_le NaN _ = False"
| "float_le _ NaN = False"
| "float_le a b = (a = b \<or> float_lt a b)"

section \<open>String operations of the standard library\<close>

text \<open>\<open>str.isspace\<close> of one code point, the set \<open>str.strip()\<close> removes.\<close>

definition is_space :: "nat \<Rightarrow> bool" where
  "is_space c \<longleftrightarrow>
     (9 \<le> c \<and> c \<le> 13) \<or> (28 \<le> c \<and> c \<le> 32) \<or> c = 133 \<or> c = 160 \<or> c = 5760 \<or>
     (8192 \<le> c \<and> c \<le> 8202) \<or> c = 8232 \<or> c = 8233 \<or> c = 8239 \<or> c = 8287 \<or> c = 12288"

text \<open>\<open>s.strip()\<close>\<close>

definition strip :: "pystr \<Rightarrow> pystr" where
  "strip s = rev (dropWhile is_space (rev (dropWhile is_space s)))"

text \<open>\<open>sub in s\<close>\<close>

fun occurs_in :: "pystr \<Rightarrow> pystr \<Rightarrow> bool" where
  "occurs_in sub [] = (sub = [])"
| "occurs_in sub (c # cs) = (prefix sub (c # cs) \<or> occurs_in sub cs)"

text \<open>
  The first occurrence of a non-empty separator: the text before it and the text after
  it.
\<close>

fun find_sep :: "pystr \<Rightarrow> pystr \<Rightarrow> (pystr \<times> pystr) option" where
  "find_sep sep [] = None"
| "find_sep sep (c # cs) =
     (if sep \<noteq> [] \<and> prefix sep (c # cs) then Some ([], drop (length sep) (c # cs))
      else (case find_sep sep cs of
              None \<Rightarrow> None
            | Some (a, b) \<Rightarrow> Some (c # a, b)))"

text \<open>\<open>s.split(sep, 1)\<close>; an empty separator raises \<open>ValueError\<close>.\<close>

definition split1 :: "pystr \<Rightarrow> pystr \<Rightarrow> pyerror + pystr list" where
  "split1 s sep =
     (if sep = [] then Inl ValueError
      else (case find_sep sep s of
              None \<Rightarrow> Inr [s]
            | Some (a, b) \<Rightarrow> Inr [a, b]))"

text \<open>
  \<open>s.replace(old, new)\<close>: the occurrences of \<open>old\<close> are replaced from the left, without
  overlap; with an empty \<open>old\<close>, \<open>new\<close> is put before every code point and at the end.
\<close>

function replace :: "pystr \<Rightarrow> pystr \<Rightarrow> pystr \<Rightarrow> pystr" where
  "replace [] old new = (if old = [] then new else [])"
| "replace (c # cs) old new =
     (if old = [] then new @ c # replace cs old new
      else if prefix old (c # cs) then new @ replace (drop (length old) (c # cs)) old new
      else c # replace cs old new)"
  by pat_completeness auto
termination
  by (relation "measure (\<lambda>(s, old, new). length s)") (auto simp: neq_Nil_conv)

text \<open>\<open>str(n)\<close> of a non-negative \<open>int\<close>, as an f-string formats it.\<close>

function digits :: "nat \<Rightarrow> pystr" where
  "digits n = (if n < 10 then [48 + n] else digits (n div 10) @ [48 + n mod 10])"
  by pat_completeness auto
termination
  by (relation "measure id") auto

definition str_int :: "int \<Rightarrow> pystr" where
  "str_int i = (if i < 0 then 45 # digits (nat (- i)) else digits (nat i))"

text \<open>
  \<open>float(s)\<close> on a \<open>str\<close>: surrounding whitespace is ignored; an underscore may stand
  between two digits only; then an optional sign and \<open>inf\<close>, \<open>infinity\<close> or \<open>nan\<close> in any
  case, or a decimal numeral with an optional exponent. Everything else raises
  \<open>ValueError\<close>. (Decimal digits outside ASCII are not modelled.)
\<close>

definition is_digit :: "nat \<Rightarrow> bool" where
  "is_digit c \<longleftrightarrow> 48 \<le> c \<and> c \<le> 57"

definition lower :: "nat \<Rightarrow> nat" where
  "lower c = (if 65 \<le> c \<and> c \<le> 90 then c + 32 else c)"

fun underscores_ok :: "bool \<Rightarrow> pystr \<Rightarrow> bool" where
  "underscores_ok prev_digit [] = True"
| "underscores_ok prev_digit (c # cs) =
     (if c = 95
      then prev_digit \<and> (case cs of [] \<Rightarrow> False | d # _ \<Rightarrow> is_digit d) \<and> underscores_ok False cs
      else underscores_ok (is_digit c) cs)"

definition nat_of_digits :: "pystr \<Rightarrow> nat" where
  "nat_of_digits ds = foldl (\<lambda>a d. 10 * a + (d - 48)) 0 ds"

text \<open>The mantissa: its digits as a number, how many of them follow the point, the rest.\<close>

definition parse_decimal :: "pystr \<Rightarrow> (nat \<times> nat \<times> pystr) option" where
  "parse_decimal s =
     (let ip = takeWhile is_digit s; r = dropWhile is_digit s in
      case r of
        c # r' \<Rightarrow>
          if c = 46
          then (let fp = takeWhile is_digit r'; r'' = dropWhile is_digit r' in
                if ip = [] \<and> fp = [] then None
                else Some (nat_of_digits (ip @ fp), length fp, r''))
          else if ip = [] then None else Some (nat_of_digits ip, 0, r)
      | [] \<Rightarrow> if ip = [] then None else Some (nat_of_digits ip, 0, r))"

definition parse_exponent :: "pystr \<Rightarrow> int option" where
  "parse_exponent s =
     (case s of
        [] \<Rightarrow> Some 0
      | c # r \<Rightarrow>
          if c = 101 \<or> c = 69
          then (let (neg, ds) = (case r of
                                   [] \<Rightarrow> (False, r)
                                 | d # r' \<Rightarrow> if d = 45 then (True, r')
                                            else if d = 43 then (False, r') else (False, r))
                in if ds \<noteq> [] \<and> list_all is_digit ds
                   then Some (if neg then - int (nat_of_digits ds) else int (nat_of_digits ds))
                   else None)
          else None)"

definition scale10 :: "rat \<Rightarrow> int \<Rightarrow> rat" where
  "scale10 q e = (if 0 \<le> e then q * 10 ^ nat e else q / 10 ^ nat (- e))"

definition py_float :: "pystr \<Rightarrow> pyerror + pyfloat" where
  "py_float s =
     (let t = strip s in
      if \<not> underscores_ok False t then Inl ValueError
      else
        (let u = filter (\<lambda>c. c \<noteq> 95) t;
             (neg, v) = (case u of
                           [] \<Rightarrow> (False, u)
                         | c # r \<Rightarrow> if c = 45 then (True, r)
                                    else if c = 43 then (False, r) else (False, u));
             w = map lower v
         in if w = str ''inf'' \<or> w = str ''infinity'' then Inr (if neg then NegInf else PosInf)
            else if w = str ''nan'' then Inr NaN
            else (case parse_decimal v of
                    None \<Rightarrow> Inl ValueError
                  | Some (m, k, r) \<Rightarrow>
                      (case parse_exponent r of
                         None \<Rightarrow> Inl ValueError
                       | Some e \<Rightarrow>
                           Inr (Finite (scale10 (if neg then - of_nat m else of_nat m)
                                                (e - int k)))))))"

section \<open>The parsed page, as BeautifulSoup exposes it\<close>

text \<open>
  A node of the parse tree is a string or a tag with its name, its \<open>class\<close> attribute
  (a list of tokens, as the tree builder stores this multi-valued attribute; \<open>None\<close>
  when the tag has none), its other attributes (each a \<open>str\<close>) and its children.
\<close>

datatype node =
    Text pystr
  | Elem pystr "pystr list option" "(pystr \<times> pystr) list" "node list"

text \<open>The tags and strings below a node, in document order.\<close>

fun descendants :: "node \<Rightarrow> node list" where
  "descendants (Text s) = []"
| "descendants (Elem t cls attrs kids) = concat (map (\<lambda>k. k # descendants k) kids)"

text \<open>\<open>' '.join(tokens)\<close>\<close>

fun join_space :: "pystr list \<Rightarrow> pystr" where
  "join_space [] = []"
| "join_space [x] = x"
| "join_space (x # y # ys) = x @ 32 # join_space (y # ys)"

text \<open>
  The \<open>class_\<close> filter: one of the tag's class tokens is the wanted string, or the
  tokens joined by single spaces are.
\<close>

fun has_class :: "pystr \<Rightarrow> node \<Rightarrow> bool" where
  "has_class c (Elem t (Some cls) attrs kids) = (c \<in> set cls \<or> join_space cls = c)"
| "has_class c _ = False"

fun is_tag :: "pystr \<Rightarrow> node \<Rightarrow> bool" where
  "is_tag name (Elem t cls attrs kids) = (t = name)"
| "is_tag name (Text s) = False"

text \<open>\<open>node.find_all(name)\<close>, \<open>node.find_all(name, class_=c)\<close> and the two \<open>find\<close>.\<close>

definition find_all :: "node \<Rightarrow> pystr \<Rightarrow> node list" where
  "find_all n name = filter (is_tag name) (descendants n)"

definition find_all_class :: "node \<Rightarrow> pystr \<Rightarrow> pystr \<Rightarrow> node list" where
  "find_all_class n name c = filter (\<lambda>d. is_tag name d \<and> has_class c d) (descendants n)"

definition find_tag :: "node \<Rightarrow> pystr \<Rightarrow> node option" where
  "find_tag n name = (case find_all n name of [] \<Rightarrow> None | d # _ \<Rightarrow> Some d)"

definition find_class :: "node \<Rightarrow> pystr \<Rightarrow> pystr \<Rightarrow> node option" where
  "find_class n name c = (case find_all_class n name c of [] \<Rightarrow> None | d # _ \<Rightarrow> Some d)"

text \<open>\<open>node.text\<close>: the strings below the node, concatenated.\<close>

fun text_of :: "node \<Rightarrow> pystr" where
  "text_of (Text s) = s"
| "text_of (Elem t cls attrs kids) = concat (map text_of kids)"

text \<open>\<open>tag.get(key, default)\<close> for an attribute other than \<open>class\<close>.\<close>

fun get_attr :: "node \<Rightarrow> pystr \<Rightarrow> pystr \<Rightarrow> pystr" where
  "get_attr (Elem t cls attrs kids) key dflt =
     (case map_of attrs key of None \<Rightarrow> dflt | Some v \<Rightarrow> v)"
| "get_attr (Text s) key dflt = dflt"

text \<open>\<open>tag.get('class')\<close>\<close>

fun get_class :: "node \<Rightarrow> pystr list option" where
  "get_class (Elem t cls attrs kids) = cls"
| "get_class (Text s) = None"

section \<open>The record and the scraper's surroundings\<close>

text \<open>
  \<open>Book\<close>. The dataclass does not check its annotations: the search extractor stores
  whatever the JSON document holds in \<open>title\<close>, \<open>author\<close>, \<open>isbn\<close> and \<open>rating\<close>, so these
  fields are Python values (\<open>PNone\<close> is \<open>None\<close>). \<open>price\<close> is a float or \<open>None\<close> on every
  path.
\<close>

record book =
  title :: pyval
  author :: pyval
  price :: "pyfloat option"
  availability :: pystr
  url :: pystr
  source :: pystr
  scraped_at :: pystr
  isbn :: pyval
  rating :: pyval

text \<open>What the HTTP session answers: the status and \<open>await response.text()\<close>.\<close>

record response =
  status :: int
  body :: "pyerror + pystr"

text \<open>
  The collaborators outside the repository, as parameters: \<open>session.get\<close> (an exception
  is a transport error or the 30 s timeout), the \<open>BeautifulSoup\<close> constructor with
  \<open>html.parser\<close>, \<open>json.loads\<close>, \<open>urllib.parse.urljoin\<close>, the clock
  (\<open>datetime.now().isoformat()\<close> at its n-th reading) and the \<open>repr\<close> of floats and
  containers inside an f-string.
\<close>

record env =
  http_get :: "pystr \<Rightarrow> pyerror + response"
  BeautifulSoup :: "pystr \<Rightarrow> pyerror + node"
  json_loads :: "pystr \<Rightarrow> pyerror + pyval"
  urljoin :: "pystr \<Rightarrow> pystr \<Rightarrow> pyerror + pystr"
  now_isoformat :: "nat \<Rightarrow> pystr"
  repr_other :: "pyval \<Rightarrow> pystr"

text \<open>The calls of \<open>logger\<close>, one constructor per call site.\<close>

datatype log_entry =
    InfoFetching pystr
  | ErrorFailedToFetch pystr int
  | ErrorFetching pystr pyerror
  | ErrorParsingBook pyerror
  | ErrorParsingOpenLibrary pyerror
  | ErrorParsingGutenberg pyerror
  | InfoAllCompleted
  | ErrorTaskFailed pyerror

text \<open>
  What the code changes: the log, the clock (how often it has been read) and
  \<open>self.results\<close>.
\<close>

record world =
  logged :: "log_entry list"
  clock_reads :: nat
  results :: "book list"

definition log_call :: "log_entry \<Rightarrow> world \<Rightarrow> world" where
  "log_call l w = w\<lparr>logged := logged w @ [l]\<rparr>"

definition tick :: "world \<Rightarrow> world" where
  "tick w = w\<lparr>clock_reads := Suc (clock_reads w)\<rparr>"

section \<open>\<open>fetch_page\<close>\<close>

text \<open>
  The semaphore and the delay change when the call returns, not what it returns; the
  value and the log are modelled. \<open>None\<close> is Python's \<open>None\<close>.
\<close>

definition fetch_page :: "env \<Rightarrow> pystr \<Rightarrow> world \<Rightarrow> pystr option \<times> world" where
  "fetch_page e u w =
     (let w1 = log_call (InfoFetching u) w in
      case http_get e u of
        Inl err \<Rightarrow> (None, log_call (ErrorFetching u err) w1)
      | Inr r \<Rightarrow>
          if status r = 200
          then (case body r of
                  Inl err \<Rightarrow> (None, log_call (ErrorFetching u err) w1)
                | Inr content \<Rightarrow> (Some content, w1))
          else (None, log_call (ErrorFailedToFetch u (status r)) w1))"

section \<open>\<open>scrape_books_toscrape\<close>\<close>

text \<open>\<open>rating_map\<close>\<close>

definition rating_map :: "(pystr \<times> int) list" where
  "rating_map =
     [(str ''One'', 1), (str ''Two'', 2), (str ''Three'', 3), (str ''Four'', 4),
      (str ''Five'', 5)]"

text \<open>Lines 80 to 82: the title link, the title and the absolute URL.\<close>

definition article_title_link :: "node \<Rightarrow> pyerror + node" where
  "article_title_link article =
     (case find_tag article (str ''h3'') of
        None \<Rightarrow> Inl AttributeError
      | Some h3 \<Rightarrow>
          (case find_tag h3 (str ''a'') of
             None \<Rightarrow> Inl AttributeError
           | Some a \<Rightarrow> Inr a))"

text \<open>Lines 84 to 86: the price.\<close>

definition article_price :: "node \<Rightarrow> pyerror + pyfloat" where
  "article_price article =
     (let price_elem = find_class article (str ''p'') (str ''price_color'');
          price_text = (case price_elem of Some pe \<Rightarrow> text_of pe | None \<Rightarrow> str ''0'')
      in py_float (replace (replace price_text [163] []) [194] []))"

text \<open>
  Lines 88 to 90: the rating. \<open>rating_elem.get('class')[1]\<close> raises \<open>IndexError\<close> when
  the tag has one class token only.
\<close>

definition article_rating :: "node \<Rightarrow> pyerror + pyval" where
  "article_rating article =
     (case find_class article (str ''p'') (str ''star-rating'') of
        None \<Rightarrow> Inr PNone
      | Some rating_elem \<Rightarrow>
          (case get_class rating_elem of
             None \<Rightarrow> Inl TypeError
           | Some cls \<Rightarrow>
               if 1 < length cls
               then Inr (PInt (case map_of rating_map (cls ! 1) of Some r \<Rightarrow> r | None \<Rightarrow> 0))
               else Inl IndexError))"

text \<open>Lines 92 and 93.\<close>

definition article_availability :: "node \<Rightarrow> pystr" where
  "article_availability article =
     (case find_class article (str ''p'') (str ''instock availability'') of
        Some avail_elem \<Rightarrow> str ''In stock''
      | None \<Rightarrow> str ''Out of stock'')"

text \<open>
  The body of the \<open>try\<close> for one \<open>article\<close>: the book, or the exception the \<open>except\<close>
  clause catches. \<open>n\<close> is the reading of the clock.
\<close>

definition article_book :: "env \<Rightarrow> pystr \<Rightarrow> nat \<Rightarrow> node \<Rightarrow> pyerror + book" where
  "article_book e u n article =
     (case article_title_link article of
        Inl err \<Rightarrow> Inl err
      | Inr title_elem \<Rightarrow>
          (case urljoin e u (get_attr title_elem (str ''href'') []) of
             Inl err \<Rightarrow> Inl err
           | Inr book_url \<Rightarrow>
               (case article_price article of
                  Inl err \<Rightarrow> Inl err
                | Inr p \<Rightarrow>
                    (case article_rating article of
                       Inl err \<Rightarrow> Inl err
                     | Inr r \<Rightarrow>
                         Inr \<lparr>title = PStr (get_attr title_elem (str ''title'') []),
                              author = PStr (str ''Unknown''),
                              price = Some p,
                              availability = article_availability article,
                              url = book_url,
                              source = str ''books.toscrape.com'',
                              scraped_at = now_isoformat e n,
                              isbn = PNone,
                              rating = r\<rparr>))))"

text \<open>The \<open>for\<close> loop over the articles: a failing article is logged and skipped.\<close>

fun catalog_loop :: "env \<Rightarrow> pystr \<Rightarrow> node list \<Rightarrow> book list \<Rightarrow> world \<Rightarrow> book list \<times> world" where
  "catalog_loop e u [] books w = (books, w)"
| "catalog_loop e u (article # rest) books w =
     (case article_book e u (clock_reads w) article of
        Inl err \<Rightarrow> catalog_loop e u rest books (log_call (ErrorParsingBook err) w)
      | Inr b \<Rightarrow> catalog_loop e u rest (books @ [b]) (tick w))"

text \<open>
  The result is \<open>Inl\<close> when an exception leaves the coroutine: only the \<open>BeautifulSoup\<close>
  constructor stands outside every \<open>try\<close>.
\<close>

definition scrape_books_toscrape :: "env \<Rightarrow> int \<Rightarrow> world \<Rightarrow> (pyerror + book list) \<times> world" where
  "scrape_books_toscrape e page_num w =
     (let u = str ''https://books.toscrape.com/catalogue/page-'' @ str_int page_num @ str ''.html'';
          (html, w1) = fetch_page e u w
      in case html of
           None \<Rightarrow> (Inr [], w1)
         | Some h \<Rightarrow>
             if h = [] then (Inr [], w1)
             else (case BeautifulSoup e h of
                     Inl err \<Rightarrow> (Inl err, w1)
                   | Inr soup \<Rightarrow>
                       (let (books, w2) =
                              catalog_loop e u
                                (find_all_class soup (str ''article'') (str ''product_pod'')) [] w1
                        in (Inr books, w2))))"

section \<open>\<open>scrape_openlibrary_search\<close>\<close>

text \<open>
  \<open>d.get(key, default)\<close>: only a \<open>dict\<close> has the method. (The keys of a \<open>PDict\<close> are
  distinct, as those of a \<open>dict\<close> are.)
\<close>

definition dict_get :: "pyval \<Rightarrow> pystr \<Rightarrow> pyval \<Rightarrow> pyerror + pyval" where
  "dict_get d key dflt =
     (case d of
        PDict kvs \<Rightarrow> Inr (case map_of kvs key of None \<Rightarrow> dflt | Some v \<Rightarrow> v)
      | _ \<Rightarrow> Inl AttributeError)"

text \<open>
  \<open>x[:20]\<close>, as the list of items the loop then iterates over: a \<open>str\<close> is sliced and
  iterated by code point; nothing else that \<open>json.loads\<close> returns can be sliced.
\<close>

definition slice20 :: "pyval \<Rightarrow> pyerror + pyval list" where
  "slice20 x =
     (case x of
        PList xs \<Rightarrow> Inr (take 20 xs)
      | PStr s \<Rightarrow> Inr (map (\<lambda>c. PStr [c]) (take 20 s))
      | _ \<Rightarrow> Inl TypeError)"

text \<open>\<open>x[0]\<close>\<close>

definition index0 :: "pyval \<Rightarrow> pyerror + pyval" where
  "index0 x =
     (case x of
        PList xs \<Rightarrow> (case xs of [] \<Rightarrow> Inl IndexError | y # _ \<Rightarrow> Inr y)
      | PStr s \<Rightarrow> (case s of [] \<Rightarrow> Inl IndexError | c # _ \<Rightarrow> Inr (PStr [c]))
      | PDict kvs \<Rightarrow> Inl KeyError
      | _ \<Rightarrow> Inl TypeError)"

text \<open>A value inside an f-string.\<close>

definition format_value :: "env \<Rightarrow> pyval \<Rightarrow> pystr" where
  "format_value e v =
     (case v of
        PStr s \<Rightarrow> s
      | PNone \<Rightarrow> str ''None''
      | PBool b \<Rightarrow> (if b then str ''True'' else str ''False'')
      | PInt i \<Rightarrow> str_int i
      | _ \<Rightarrow> repr_other e v)"

text \<open>The body of the \<open>for\<close> loop for one \<open>doc\<close> (lines 125 to 143).\<close>

definition doc_book :: "env \<Rightarrow> nat \<Rightarrow> pyval \<Rightarrow> pyerror + book" where
  "doc_book e n doc =
     (case dict_get doc (str ''title'') (PStr (str ''Unknown'')) of
        Inl err \<Rightarrow> Inl err
      | Inr title' \<Rightarrow>
     (case dict_get doc (str ''author_name'') (PList [PStr (str ''Unknown'')]) of
        Inl err \<Rightarrow> Inl err
      | Inr authors \<Rightarrow>
     (case (if truthy authors then index0 authors else Inr (PStr (str ''Unknown''))) of
        Inl err \<Rightarrow> Inl err
      | Inr author' \<Rightarrow>
     (case dict_get doc (str ''isbn'') (PList []) of
        Inl err \<Rightarrow> Inl err
      | Inr isbn_list \<Rightarrow>
     (case (if truthy isbn_list then index0 isbn_list else Inr PNone) of
        Inl err \<Rightarrow> Inl err
      | Inr isbn' \<Rightarrow>
     (case dict_get doc (str ''key'') (PStr []) of
        Inl err \<Rightarrow> Inl err
      | Inr key \<Rightarrow>
     (case dict_get doc (str ''ratings_average'') PNone of
        Inl err \<Rightarrow> Inl err
      | Inr rating' \<Rightarrow>
          Inr \<lparr>title = title',
               author = author',
               price = None,
               availability = str ''Check Open Library'',
               url = str ''https://openlibrary.org/works/'' @ format_value e key,
               source = str ''openlibrary.org'',
               scraped_at = now_isoformat e n,
               isbn = isbn',
               rating = rating'\<rparr>)))))))"

text \<open>
  The \<open>for\<close> loop, which stands inside the \<open>try\<close>: an exception ends it. The result is
  the exception, if any, and \<open>books\<close> as it is then.
\<close>

fun openlibrary_loop ::
  "env \<Rightarrow> pyval list \<Rightarrow> book list \<Rightarrow> world \<Rightarrow> pyerror option \<times> book list \<times> world" where
  "openlibrary_loop e [] books w = (None, books, w)"
| "openlibrary_loop e (doc # rest) books w =
     (case doc_book e (clock_reads w) doc of
        Inl err \<Rightarrow> (Some err, books, w)
      | Inr b \<Rightarrow> openlibrary_loop e rest (books @ [b]) (tick w))"

definition openlibrary_try :: "env \<Rightarrow> pystr \<Rightarrow> world \<Rightarrow> pyerror option \<times> book list \<times> world" where
  "openlibrary_try e h w =
     (case json_loads e h of
        Inl err \<Rightarrow> (Some err, [], w)
      | Inr data \<Rightarrow>
          (case dict_get data (str ''docs'') (PList []) of
             Inl err \<Rightarrow> (Some err, [], w)
           | Inr docs \<Rightarrow>
               (case slice20 docs of
                  Inl err \<Rightarrow> (Some err, [], w)
                | Inr items \<Rightarrow> openlibrary_loop e items [] w)))"

definition scrape_openlibrary_search ::
  "env \<Rightarrow> pystr \<Rightarrow> world \<Rightarrow> (pyerror + book list) \<times> world" where
  "scrape_openlibrary_search e query w =
     (let u = str ''https://openlibrary.org/search.json?q='' @ replace query (str '' '') (str ''+'')
                @ str ''&limit=20'';
          (html, w1) = fetch_page e u w
      in case html of
           None \<Rightarrow> (Inr [], w1)
         | Some h \<Rightarrow>
             if h = [] then (Inr [], w1)
             else (case openlibrary_try e h w1 of
                     (None, books, w2) \<Rightarrow> (Inr books, w2)
                   | (Some err, books, w2) \<Rightarrow>
                       (Inr books, log_call (ErrorParsingOpenLibrary err) w2)))"

section \<open>\<open>scrape_gutenberg_top\<close>\<close>

text \<open>
  The body of the \<open>try\<close> for one \<open>li\<close>: no book when the entry has no link, the book,
  or the exception the \<open>except\<close> clause catches.
\<close>

definition li_book :: "env \<Rightarrow> pystr \<Rightarrow> nat \<Rightarrow> node \<Rightarrow> pyerror + book option" where
  "li_book e u n li =
     (case find_tag li (str ''a'') of
        None \<Rightarrow> Inr None
      | Some link \<Rightarrow>
          (let title_text = strip (text_of link) in
           case (if occurs_in (str '' by '') title_text
                 then (case split1 title_text (str '' by '') of
                         Inl err \<Rightarrow> Inl err
                       | Inr parts \<Rightarrow>
                           (case parts of
                              [t, a] \<Rightarrow> Inr (t, a)
                            | _ \<Rightarrow> Inl ValueError))
                 else Inr (title_text, str ''Unknown'')) of
             Inl err \<Rightarrow> Inl err
           | Inr (title', author') \<Rightarrow>
               (case urljoin e u (get_attr link (str ''href'') []) of
                  Inl err \<Rightarrow> Inl err
                | Inr book_url \<Rightarrow>
                    Inr (Some \<lparr>title = PStr (strip title'),
                               author = PStr (strip author'),
                               price = Some (Finite 0),
                               availability = str ''Free Download'',
                               url = book_url,
                               source = str ''gutenberg.org'',
                               scraped_at = now_isoformat e n,
                               isbn = PNone,
                               rating = PNone\<rparr>))))"

fun gutenberg_loop :: "env \<Rightarrow> pystr \<Rightarrow> node list \<Rightarrow> book list \<Rightarrow> world \<Rightarrow> book list \<times> world" where
  "gutenberg_loop e u [] books w = (books, w)"
| "gutenberg_loop e u (li # rest) books w =
     (case li_book e u (clock_reads w) li of
        Inl err \<Rightarrow> gutenberg_loop e u rest books (log_call (ErrorParsingGutenberg err) w)
      | Inr None \<Rightarrow> gutenberg_loop e u rest books w
      | Inr (Some b) \<Rightarrow> gutenberg_loop e u rest (books @ [b]) (tick w))"

definition scrape_gutenberg_top :: "env \<Rightarrow> world \<Rightarrow> (pyerror + book list) \<times> world" where
  "scrape_gutenberg_top e w =
     (let u = str ''https://www.gutenberg.org/browse/scores/top'';
          (html, w1) = fetch_page e u w
      in case html of
           None \<Rightarrow> (Inr [], w1)
         | Some h \<Rightarrow>
             if h = [] then (Inr [], w1)
             else (case BeautifulSoup e h of
                     Inl err \<Rightarrow> (Inl err, w1)
                   | Inr soup \<Rightarrow>
                       (case find_tag soup (str ''ol'') of
                          None \<Rightarrow> (Inr [], w1)
                        | Some ol_elem \<Rightarrow>
                            (let (books, w2) =
                                   gutenberg_loop e u (take 20 (find_all ol_elem (str ''li''))) [] w1
                             in (Inr books, w2)))))"

section \<open>\<open>run_all_scrapers\<close>\<close>

text \<open>The six coroutines of \<open>tasks\<close>.\<close>

definition tasks :: "(env \<Rightarrow> world \<Rightarrow> (pyerror + book list) \<times> world) list" where
  "tasks =
     [(\<lambda>e. scrape_books_toscrape e 1),
      (\<lambda>e. scrape_books_toscrape e 2),
      (\<lambda>e. scrape_books_toscrape e 3),
      (\<lambda>e. scrape_openlibrary_search e (str ''python programming'')),
      (\<lambda>e. scrape_openlibrary_search e (str ''data science'')),
      scrape_gutenberg_top]"

text \<open>
  \<open>asyncio.gather(*tasks, return_exceptions=True)\<close>: every task runs to its end, and the
  result list holds, in the order of \<open>tasks\<close>, what each returned or the exception it
  raised. The tasks interleave at their awaits; what one returns depends on the answers
  to its own requests only. The log and the clock are threaded through the tasks in the
  order of the list: in a run the entries of different tasks interleave, which changes
  the order of the log and the timestamps, not the entries of one task nor any record.
\<close>

fun gather ::
  "env \<Rightarrow> (env \<Rightarrow> world \<Rightarrow> (pyerror + book list) \<times> world) list \<Rightarrow> world
     \<Rightarrow> (pyerror + book list) list \<times> world" where
  "gather e [] w = ([], w)"
| "gather e (t # ts) w =
     (let (r, w1) = t e w; (rs, w2) = gather e ts w1 in (r # rs, w2))"

text \<open>The loop that flattens the results (lines 214 to 219).\<close>

fun flatten_results ::
  "(pyerror + book list) list \<Rightarrow> book list \<Rightarrow> world \<Rightarrow> book list \<times> world" where
  "flatten_results [] all_books w = (all_books, w)"
| "flatten_results (Inl err # rs) all_books w =
     flatten_results rs all_books (log_call (ErrorTaskFailed err) w)"
| "flatten_results (Inr bs # rs) all_books w = flatten_results rs (all_books @ bs) w"

definition run_all_scrapers :: "env \<Rightarrow> world \<Rightarrow> book list \<times> world" where
  "run_all_scrapers e w =
     (let (rs, w1) = gather e tasks w;
          w2 = log_call InfoAllCompleted w1;
          (all_books, w3) = flatten_results rs [] w2
      in (all_books, w3\<lparr>results := all_books\<rparr>))"

section \<open>\<open>get_price_comparison\<close>\<close>

text \<open>
  \<open>comparison\<close> is a \<open>dict\<close> from titles to lists of books, in insertion order. A \<open>list\<close>
  or a \<open>dict\<close> cannot be a key (\<open>TypeError\<close>). Keys are compared as values of the model,
  which is Python's comparison of keys when the titles are \<open>str\<close>, as they are on every
  path that stores a price.
\<close>

fun hashable :: "pyval \<Rightarrow> bool" where
  "hashable (PList xs) = False"
| "hashable (PDict kvs) = False"
| "hashable _ = True"

definition dict_contains :: "(pyval \<times> book list) list \<Rightarrow> pyval \<Rightarrow> bool" where
  "dict_contains d k = (k \<in> set (map fst d))"

text \<open>\<open>d[k].append(b)\<close>\<close>

definition dict_append :: "(pyval \<times> book list) list \<Rightarrow> pyval \<Rightarrow> book \<Rightarrow> (pyval \<times> book list) list" where
  "dict_append d k b = map (\<lambda>(k', g). if k' = k then (k', g @ [b]) else (k', g)) d"

text \<open>The first loop (lines 253 to 257).\<close>

fun group_loop ::
  "book list \<Rightarrow> (pyval \<times> book list) list \<Rightarrow> pyerror + (pyval \<times> book list) list" where
  "group_loop [] comparison = Inr comparison"
| "group_loop (b # rest) comparison =
     (case price b of
        None \<Rightarrow> group_loop rest comparison
      | Some p \<Rightarrow>
          if \<not> hashable (title b) then Inl TypeError
          else group_loop rest
                 (dict_append
                    (if \<not> dict_contains comparison (title b)
                     then comparison @ [(title b, [])] else comparison)
                    (title b) b))"

text \<open>The sort key \<open>x.price or float('inf')\<close>.\<close>

definition price_key :: "book \<Rightarrow> pyfloat" where
  "price_key x =
     (case price x of
        None \<Rightarrow> PosInf
      | Some p \<Rightarrow> if float_truthy p then p else PosInf)"

text \<open>
  \<open>list.sort(key=...)\<close> is a stable sort that compares keys with \<open><\<close>: each element is
  put behind the elements before it whose key is not greater. (With a NaN among the
  keys \<open><\<close> is no ordering and the result of \<open>list.sort\<close> is not modelled.)
\<close>

fun insert_by_key :: "book \<Rightarrow> book list \<Rightarrow> book list" where
  "insert_by_key x [] = [x]"
| "insert_by_key x (y # ys) =
     (if float_lt (price_key x) (price_key y) then x # y # ys else y # insert_by_key x ys)"

definition sort_by_key :: "book list \<Rightarrow> book list" where
  "sort_by_key xs = foldl (\<lambda>sorted x. insert_by_key x sorted) [] xs"

definition get_price_comparison :: "world \<Rightarrow> pyerror + (pyval \<times> book list) list" where
  "get_price_comparison w =
     (case group_loop (results w) [] of
        Inl err \<Rightarrow> Inl err
      | Inr comparison \<Rightarrow> Inr (map (\<lambda>(t, g). (t, sort_by_key g)) comparison))"

section \<open>The permit pool\<close>

text \<open>
  \<open>fetch_page\<close> runs its whole body inside \<open>async with self.semaphore\<close>, and the body
  awaits three times: the request, the body of the response, the delay. A task is
  therefore at one of five places: before the \<open>async with\<close> (it holds no permit), at one
  of the three awaits (it holds one), or past the \<open>async with\<close>.
\<close>

datatype place = AtAcquire | AtGet | AtText | AtSleep | Returned

fun holds_permit :: "place \<Rightarrow> bool" where
  "holds_permit AtGet = True"
| "holds_permit AtText = True"
| "holds_permit AtSleep = True"
| "holds_permit _ = False"

text \<open>The semaphore's counter and the place of every task.\<close>

record sched =
  permits :: nat
  places :: "place list"

text \<open>
  One step of the event loop, for task \<open>i\<close>. \<open>Semaphore.acquire\<close> returns only while the
  counter is positive, and decrements it; leaving the \<open>async with\<close> (by either
  \<open>return\<close>, or by an exception, which the \<open>except\<close> clause inside turns into
  \<open>return None\<close>) calls \<open>release\<close>, which increments it.
\<close>

inductive step :: "sched \<Rightarrow> sched \<Rightarrow> bool" where
  acquire:
    "i < length (places s) \<Longrightarrow> places s ! i = AtAcquire \<Longrightarrow> 0 < permits s \<Longrightarrow>
     step s \<lparr>permits = permits s - 1, places = (places s)[i := AtGet]\<rparr>"
| get_200:
    "i < length (places s) \<Longrightarrow> places s ! i = AtGet \<Longrightarrow>
     step s (s\<lparr>places := (places s)[i := AtText]\<rparr>)"
| get_other:
    "i < length (places s) \<Longrightarrow> places s ! i = AtGet \<Longrightarrow>
     step s \<lparr>permits = permits s + 1, places = (places s)[i := Returned]\<rparr>"
| text_read:
    "i < length (places s) \<Longrightarrow> places s ! i = AtText \<Longrightarrow>
     step s (s\<lparr>places := (places s)[i := AtSleep]\<rparr>)"
| text_raises:
    "i < length (places s) \<Longrightarrow> places s ! i = AtText \<Longrightarrow>
     step s \<lparr>permits = permits s + 1, places = (places s)[i := Returned]\<rparr>"
| slept:
    "i < length (places s) \<Longrightarrow> places s ! i = AtSleep \<Longrightarrow>
     step s \<lparr>permits = permits s + 1, places = (places s)[i := Returned]\<rparr>"

text \<open>
  The states of a run with \<open>Semaphore(c)\<close> and \<open>n\<close> tasks that each call \<open>fetch_page\<close>
  once.
\<close>

inductive reachable :: "nat \<Rightarrow> nat \<Rightarrow> sched \<Rightarrow> bool" where
  start: "reachable c n \<lparr>permits = c, places = replicate n AtAcquire\<rparr>"
| later: "reachable c n s \<Longrightarrow> step s s' \<Longrightarrow> reachable c n s'"

definition in_flight :: "sched \<Rightarrow> nat" where
  "in_flight s = length (filter holds_permit (places s))"

section \<open>Properties the statements below name\<close>

text \<open>A string without leading or trailing whitespace.\<close>

definition trimmed :: "pystr \<Rightarrow> bool" where
  "trimmed s \<longleftrightarrow> (s = [] \<or> (\<not> is_space (hd s) \<and> \<not> is_space (last s)))"


text \<open>The records a task contributes to the returned collection.\<close>

fun contribution :: "pyerror + book list \<Rightarrow> book list" where
  "contribution (Inl err) = []"
| "contribution (Inr bs) = bs"


section \<open>Pages and answers to run the model on\<close>

definition empty_world :: world where
  "empty_world = \<lparr>logged = [], clock_reads = 0, results = []\<rparr>"

text \<open>
  Surroundings with the given answers of the session, of the HTML parser and of
  \<open>json.loads\<close>. Every link of the pages below is absolute, and \<open>urljoin\<close> returns an
  absolute reference as it is.
\<close>

definition surroundings ::
  "(pystr \<Rightarrow> pyerror + response) \<Rightarrow> (pystr \<Rightarrow> pyerror + node) \<Rightarrow> (pystr \<Rightarrow> pyerror + pyval) \<Rightarrow> env" where
  "surroundings g b j =
     \<lparr>http_get = g, BeautifulSoup = b, json_loads = j,
      urljoin = (\<lambda>base ref. Inr ref), now_isoformat = digits, repr_other = (\<lambda>v. [])\<rparr>"

definition answer :: "int \<Rightarrow> pystr \<Rightarrow> pyerror + response" where
  "answer code content = Inr \<lparr>status = code, body = Inr content\<rparr>"

text \<open>
  An item block of a catalog page: the title link, then the given elements (price,
  rating, availability).
\<close>

definition item_block :: "string \<Rightarrow> node list \<Rightarrow> node" where
  "item_block name elems =
     Elem (str ''article'') (Some [str ''product_pod'']) []
       (Elem (str ''h3'') None []
          [Elem (str ''a'') None
             [(str ''href'', str ''https://books.toscrape.com/catalogue/x/index.html''),
              (str ''title'', str name)]
             [Text (str name)]]
        # elems)"

definition price_elem :: "pystr \<Rightarrow> node" where
  "price_elem t = Elem (str ''p'') (Some [str ''price_color'']) [] [Text t]"

definition rating_elem :: "string \<Rightarrow> node" where
  "rating_elem label = Elem (str ''p'') (Some [str ''star-rating'', str label]) [] []"

definition page_of :: "node list \<Rightarrow> node" where
  "page_of elems = Elem (str ''[document]'') None [] elems"

text \<open>An entry of the ranked list with the given link text.\<close>

definition list_entry :: "pystr \<Rightarrow> node" where
  "list_entry t =
     Elem (str ''li'') None []
       [Elem (str ''a'') None [(str ''href'', str ''https://www.gutenberg.org/ebooks/1'')] [Text t]]"

text \<open>A result document of the search API with the given fields.\<close>

definition titled :: "string \<Rightarrow> (pystr \<times> pyval) list \<Rightarrow> pyval" where
  "titled name kvs = PDict ((str ''title'', PStr (str name)) # kvs)"

definition payload :: "pyval list \<Rightarrow> pyval" where
  "payload docs = PDict [(str ''docs'', PList docs)]"

text \<open>The statuses of the success range (2xx).\<close>

definition success_status :: "int \<Rightarrow> bool" where
  "success_status c \<longleftrightarrow> 200 \<le> c \<and> c < 300"

text \<open>An HTML parser and a JSON decoder for runs that never reach them.\<close>

definition no_parser :: "pystr \<Rightarrow> pyerror + node" where
  "no_parser h = Inl ParserError"

definition no_json :: "pystr \<Rightarrow> pyerror + pyval" where
  "no_json h = Inl ValueError"

text \<open>Every request is answered with status 200, and the body decodes to \<open>data\<close>.\<close>

definition search_env :: "pyval \<Rightarrow> env" where
  "search_env data = surroundings (\<lambda>u. answer 200 (str ''{}'')) no_parser (\<lambda>h. Inr data)"

text \<open>
  Three result documents; in the second the author list is the number 7, so that
  \<open>authors[0]\<close> raises \<open>TypeError\<close>.
\<close>

definition three_docs :: pyval where
  "three_docs =
     payload [titled ''A'' [], titled ''B'' [(str ''author_name'', PInt 7)], titled ''C'' []]"

text \<open>Twenty-two result documents.\<close>

definition many_docs :: pyval where
  "many_docs = payload (map (\<lambda>n. titled ''A'' [(str ''key'', PInt n)]) [1..22])"

text \<open>
  Every request is answered with status 200; the HTML parser returns the given tree and
  \<open>json.loads\<close> the given value.
\<close>

definition site :: "node \<Rightarrow> pyval \<Rightarrow> env" where
  "site soup data = surroundings (\<lambda>u. answer 200 (str ''<html>'')) (\<lambda>h. Inr soup) (\<lambda>h. Inr data)"


definition block_rated_zero :: node where
  "block_rated_zero = item_block ''T'' [price_elem ([163] @ str ''51.77''), rating_elem ''Zero'']"


definition mixed_page :: node where
  "mixed_page =
     page_of [block_rated_zero,
              Elem (str ''ol'') None [] [list_entry (str ''Emma by Jane Austen'')]]"

text \<open>A page whose ranked list has the one entry with the given link text.\<close>

definition ranked_page :: "pystr \<Rightarrow> node" where
  "ranked_page t = page_of [Elem (str ''ol'') None [] [list_entry t]]"

text \<open>The URL that each of the six tasks requests, in the order of \<open>tasks\<close>.\<close>

definition task_urls :: "pystr list" where
  "task_urls =
     [str ''https://books.toscrape.com/catalogue/page-'' @ str_int 1 @ str ''.html'',
      str ''https://books.toscrape.com/catalogue/page-'' @ str_int 2 @ str ''.html'',
      str ''https://books.toscrape.com/catalogue/page-'' @ str_int 3 @ str ''.html'',
      str ''https://openlibrary.org/search.json?q=''
        @ replace (str ''python programming'') (str '' '') (str ''+'') @ str ''&limit=20'',
      str ''https://openlibrary.org/search.json?q=''
        @ replace (str ''data science'') (str '' '') (str ''+'') @ str ''&limit=20'',
      str ''https://www.gutenberg.org/browse/scores/top'']"

text \<open>
  A run in which the request for the ranked list times out and the HTML parser rejects
  the second catalog page; every other request is answered with status 200 and the URL
  as the body.
\<close>

definition faulty_site :: env where
  "faulty_site =
     surroundings
       (\<lambda>u. if u = str ''https://www.gutenberg.org/browse/scores/top'' then Inl TimeoutError
            else answer 200 u)
       (\<lambda>h. if h = str ''https://books.toscrape.com/catalogue/page-2.html'' then Inl ParserError
            else Inr mixed_page)
       (\<lambda>h. Inr (payload [titled ''A'' []]))"

text \<open>
  A page that offers \<open>Emma\<close> at 5.00 pounds in an item block and lists \<open>Emma by Jane
  Austen\<close> in a ranked list.
\<close>

definition emma_page :: node where
  "emma_page =
     page_of [item_block ''Emma'' [price_elem ([163] @ str ''5.00'')],
              Elem (str ''ol'') None [] [list_entry (str ''Emma by Jane Austen'')]]"

section \<open>Running the model\<close>

text \<open>
  The unfolding of \<open>digits\<close> is used on numerals only. The collections below hold the
  definitions that the simplifier unfolds to run the model on a concrete page.
\<close>

declare digits.simps [simp del]

lemmas float_defs = py_float_def strip_def is_space_def parse_decimal_def parse_exponent_def
  nat_of_digits_def is_digit_def scale10_def lower_def

lemmas page_defs = site_def search_env_def surroundings_def answer_def page_of_def item_block_def
  price_elem_def rating_elem_def list_entry_def payload_def titled_def empty_world_def
  no_parser_def no_json_def

lemmas soup_defs = find_all_def find_all_class_def find_tag_def find_class_def

lemmas run_defs = fetch_page_def log_call_def tick_def str_int_def digits.simps Let_def

lemmas catalog_defs = scrape_books_toscrape_def article_book_def article_title_link_def
  article_price_def article_rating_def article_availability_def rating_map_def

lemmas search_defs = scrape_openlibrary_search_def openlibrary_try_def doc_book_def dict_get_def
  slice20_def index0_def format_value_def

lemmas ranked_defs = scrape_gutenberg_top_def li_book_def split1_def

section \<open>The fetcher\<close>

text \<open>
  C4, as amended: a response counts as a success only when its status is exactly 200.
  Then, if the body can be read, \<open>fetch_page\<close> returns the body and logs the attempt
  only; with any other status, the other statuses of the success range included, it
  returns \<open>None\<close> and logs the status as a failure.
\<close>

theorem fetch_page_only_200:
  "http_get e u = Inr r \<Longrightarrow>
     (status r = 200 \<and> body r = Inr content \<longrightarrow>
        fetch_page e u w = (Some content, log_call (InfoFetching u) w)) \<and>
     (status r \<noteq> 200 \<longrightarrow>
        fetch_page e u w
          = (None, log_call (ErrorFailedToFetch u (status r)) (log_call (InfoFetching u) w)))"
  by (simp add: fetch_page_def Let_def)

theorem fetch_page_only_200_witness:
  "http_get (search_env PNone) (str ''u'') = Inr \<lparr>status = 200, body = Inr (str ''{}'')\<rparr> \<and>
   fst (fetch_page (search_env PNone) (str ''u'') empty_world) = Some (str ''{}'')"
  using fetch_page_only_200[of "search_env PNone" "str ''u''"
      "\<lparr>status = 200, body = Inr (str ''{}'')\<rparr>" "str ''{}''" empty_world]
  by (simp add: page_defs)

text \<open>
  C4 as stated fails: status 203 lies in the success range, the response has a body, and
  \<open>fetch_page\<close> returns \<open>None\<close>.
\<close>

theorem fetch_page_203_counterexample:
  "success_status 203 \<and>
   http_get (surroundings (\<lambda>u. answer 203 (str ''ok'')) no_parser no_json) (str ''u'')
     = Inr \<lparr>status = 203, body = Inr (str ''ok'')\<rparr> \<and>
   fst (fetch_page (surroundings (\<lambda>u. answer 203 (str ''ok'')) no_parser no_json) (str ''u'')
          empty_world) = None"
  by (simp add: success_status_def fetch_page_def page_defs)

section \<open>The search extractor\<close>

lemma doc_book_price: "doc_book e n doc = Inr b \<Longrightarrow> price b = None"
  by (auto simp: doc_book_def split: sum.splits if_splits)

lemma openlibrary_loop_books:
  "openlibrary_loop e docs books w = (r, books', w') \<Longrightarrow>
     \<exists>new. books' = books @ new \<and> length new \<le> length docs \<and> (\<forall>b\<in>set new. price b = None)"
proof (induction docs arbitrary: books w)
  case Nil
  then show ?case by simp
next
  case (Cons doc rest)
  show ?case
  proof (cases "doc_book e (clock_reads w) doc")
    case (Inl err)
    with Cons.prems show ?thesis by simp
  next
    case (Inr b)
    with Cons.prems have "openlibrary_loop e rest (books @ [b]) (tick w) = (r, books', w')"
      by simp
    from Cons.IH[OF this] obtain new where
      n: "books' = (books @ [b]) @ new" "length new \<le> length rest" "\<forall>x\<in>set new. price x = None"
      by blast
    from Inr have "price b = None" by (rule doc_book_price)
    with n have "books' = books @ (b # new) \<and> length (b # new) \<le> length (doc # rest) \<and>
        (\<forall>x\<in>set (b # new). price x = None)" by simp
    then show ?thesis by blast
  qed
qed

lemma slice20_length: "slice20 x = Inr items \<Longrightarrow> length items \<le> 20"
  by (auto simp: slice20_def split: pyval.splits)

lemma openlibrary_try_books:
  assumes "openlibrary_try e h w = (r, books, w')"
  shows "length books \<le> 20 \<and> (\<forall>b\<in>set books. price b = None)"
proof (cases "\<exists>data docs items. json_loads e h = Inr data \<and>
    dict_get data (str ''docs'') (PList []) = Inr docs \<and> slice20 docs = Inr items")
  case True
  then obtain data docs items where d: "json_loads e h = Inr data"
    "dict_get data (str ''docs'') (PList []) = Inr docs" "slice20 docs = Inr items" by blast
  with assms have "openlibrary_loop e items [] w = (r, books, w')"
    by (simp add: openlibrary_try_def)
  from openlibrary_loop_books[OF this] slice20_length[OF d(3)] show ?thesis by auto
next
  case False
  with assms have "books = []"
    by (auto simp: openlibrary_try_def split: sum.splits)
  then show ?thesis by simp
qed

text \<open>
  The search extractor never raises: it returns the empty list, or the \<open>books\<close> that
  the body of its \<open>try\<close> had collected when it ended.
\<close>

lemma search_result_shape:
  "\<exists>books w'. scrape_openlibrary_search e query w = (Inr books, w') \<and>
     (books = [] \<or> (\<exists>h w1 r w2. openlibrary_try e h w1 = (r, books, w2)))"
proof -
  define u where "u = str ''https://openlibrary.org/search.json?q=''
    @ replace query (str '' '') (str ''+'') @ str ''&limit=20''"
  obtain html w1 where f: "fetch_page e u w = (html, w1)" by (cases "fetch_page e u w")
  show ?thesis
  proof (cases "\<exists>h. html = Some h \<and> h \<noteq> []")
    case False
    with f have "scrape_openlibrary_search e query w = (Inr [], w1)"
      by (cases html) (auto simp: scrape_openlibrary_search_def u_def Let_def)
    then show ?thesis by simp
  next
    case True
    then obtain h where h: "html = Some h" "h \<noteq> []" by blast
    obtain r books w2 where t: "openlibrary_try e h w1 = (r, books, w2)"
      by (cases "openlibrary_try e h w1")
    with f h have "\<exists>w'. scrape_openlibrary_search e query w = (Inr books, w')"
      by (cases r) (auto simp: scrape_openlibrary_search_def u_def[symmetric] Let_def)
    with t show ?thesis by blast
  qed
qed

text \<open>
  C6: for every response of the search API, one call of the extractor returns at most
  20 records, and the price of every one of them is absent (\<open>None\<close>, never a number).
\<close>

theorem search_at_most_20_no_price:
  "\<exists>books w'. scrape_openlibrary_search e query w = (Inr books, w') \<and> length books \<le> 20 \<and>
     (\<forall>b\<in>set books. price b = None)"
proof -
  from search_result_shape[of e query w] obtain books w' where
    r: "scrape_openlibrary_search e query w = (Inr books, w')" and
    s: "books = [] \<or> (\<exists>h w1 r w2. openlibrary_try e h w1 = (r, books, w2))"
    by blast
  from s have "length books \<le> 20 \<and> (\<forall>b\<in>set books. price b = None)"
  proof
    assume "books = []"
    then show ?thesis by simp
  next
    assume "\<exists>h w1 r w2. openlibrary_try e h w1 = (r, books, w2)"
    then obtain h w1 r w2 where "openlibrary_try e h w1 = (r, books, w2)" by blast
    then show ?thesis by (rule openlibrary_try_books)
  qed
  with r show ?thesis by blast
qed

theorem search_at_most_20_no_price_witness:
  "length (contribution (fst (scrape_openlibrary_search (search_env many_docs)
      (str ''python programming'') empty_world))) = 20 \<and>
   list_all (\<lambda>b. price b = None) (contribution (fst (scrape_openlibrary_search
      (search_env many_docs) (str ''python programming'') empty_world)))"
proof -
  have n: "length (contribution (fst (scrape_openlibrary_search (search_env many_docs)
      (str ''python programming'') empty_world))) = 20"
    by (simp add: many_docs_def upto.simps search_defs run_defs page_defs str_def)
  from search_at_most_20_no_price[of "search_env many_docs" "str ''python programming''" empty_world]
  obtain books w' where "scrape_openlibrary_search (search_env many_docs)
      (str ''python programming'') empty_world = (Inr books, w')" "\<forall>b\<in>set books. price b = None"
    by blast
  with n show ?thesis by (simp add: list_all_iff)
qed

text \<open>
  C1 is not what the code does. The payload holds three documents; processing the
  second raises \<open>TypeError\<close>. The \<open>try\<close> encloses the whole loop, so the exception ends
  the loop: only the record of the first document is returned (and one error is
  logged), although the third document alone yields its record.
\<close>

theorem search_stops_at_failing_document:
  "map title (contribution (fst (scrape_openlibrary_search (search_env three_docs)
      (str ''data science'') empty_world))) = [PStr (str ''A'')] \<and>
   last (logged (snd (scrape_openlibrary_search (search_env three_docs)
      (str ''data science'') empty_world))) = ErrorParsingOpenLibrary TypeError \<and>
   map_sum id title (doc_book (search_env three_docs) 1 (titled ''C'' []))
     = Inr (PStr (str ''C''))"
  by (simp add: three_docs_def search_defs run_defs page_defs str_def)

section \<open>The catalog extractor\<close>












section \<open>The ranked-list extractor\<close>

lemma occurs_in_iff: "occurs_in sub s \<longleftrightarrow> (\<exists>x y. s = x @ sub @ y)"
proof (induction s)
  case Nil
  then show ?case by auto
next
  case (Cons c cs)
  show ?case
  proof
    assume "occurs_in sub (c # cs)"
    then consider "prefix sub (c # cs)" | "occurs_in sub cs" by auto
    then show "\<exists>x y. c # cs = x @ sub @ y"
    proof cases
      case 1
      then obtain y where "c # cs = sub @ y" by (auto simp: prefix_def)
      then have "c # cs = [] @ sub @ y" by simp
      then show ?thesis by blast
    next
      case 2
      with Cons.IH obtain x y where "cs = x @ sub @ y" by blast
      then have "c # cs = (c # x) @ sub @ y" by simp
      then show ?thesis by blast
    qed
  next
    assume "\<exists>x y. c # cs = x @ sub @ y"
    then obtain x y where xy: "c # cs = x @ sub @ y" by blast
    show "occurs_in sub (c # cs)"
    proof (cases x)
      case Nil
      with xy have "prefix sub (c # cs)" by (simp add: prefix_def)
      then show ?thesis by simp
    next
      case (Cons d x')
      with xy have "cs = x' @ sub @ y" by simp
      with Cons.IH have "occurs_in sub cs" by blast
      then show ?thesis by simp
    qed
  qed
qed

lemma find_sep_None_iff: "sep \<noteq> [] \<Longrightarrow> find_sep sep s = None \<longleftrightarrow> \<not> occurs_in sep s"
  by (induction s) (auto split: option.splits)

text \<open>\<open>find_sep\<close> splits at the first occurrence of the separator.\<close>

lemma find_sep_Some:
  "sep \<noteq> [] \<Longrightarrow> find_sep sep s = Some (a, b) \<Longrightarrow>
     s = a @ sep @ b \<and> (\<forall>x y. s = x @ sep @ y \<longrightarrow> length a \<le> length x)"
proof (induction s arbitrary: a b)
  case Nil
  then show ?case by simp
next
  case (Cons c cs)
  show ?case
  proof (cases "prefix sep (c # cs)")
    case True
    with Cons.prems have "a = []" "b = drop (length sep) (c # cs)" by auto
    moreover from True obtain y where "c # cs = sep @ y" by (auto simp: prefix_def)
    ultimately show ?thesis by auto
  next
    case False
    with Cons.prems obtain a' where f: "find_sep sep cs = Some (a', b)" and a: "a = c # a'"
      by (auto split: option.splits)
    from Cons.IH[OF Cons.prems(1) f]
    have eq: "cs = a' @ sep @ b" and mn: "\<forall>x y. cs = x @ sep @ y \<longrightarrow> length a' \<le> length x"
      by auto
    have "length a \<le> length x" if "c # cs = x @ sep @ y" for x y
    proof (cases x)
      case Nil
      with that False show ?thesis by (simp add: prefix_def)
    next
      case (Cons d x')
      with that have "cs = x' @ sep @ y" by simp
      with mn have "length a' \<le> length x'" by blast
      with a Cons show ?thesis by simp
    qed
    with eq a show ?thesis by auto
  qed
qed

lemma last_dropWhile_same: "dropWhile P xs \<noteq> [] \<Longrightarrow> last (dropWhile P xs) = last xs"
  by (induction xs) (auto split: if_splits)

lemma strip_trimmed: "trimmed (strip s)"
proof (cases "strip s = []")
  case True
  then show ?thesis by (simp add: trimmed_def)
next
  case False
  define t where "t = dropWhile is_space s"
  define r where "r = dropWhile is_space (rev t)"
  have s: "strip s = rev r" by (simp add: strip_def t_def r_def)
  with False have rne: "r \<noteq> []" by simp
  then have "\<not> is_space (hd r)" unfolding r_def by (rule hd_dropWhile)
  then have l: "\<not> is_space (last (strip s))" using rne by (simp add: s last_rev)
  from rne have "last r = last (rev t)" unfolding r_def by (rule last_dropWhile_same)
  moreover from rne have tne: "t \<noteq> []" by (auto simp: r_def)
  ultimately have "last r = hd t" by (simp add: last_rev)
  moreover from tne have "\<not> is_space (hd t)" unfolding t_def by (rule hd_dropWhile)
  ultimately have "\<not> is_space (hd (strip s))" using rne by (simp add: s hd_rev)
  with l show ?thesis by (simp add: trimmed_def)
qed

lemma strip_of_trimmed: "trimmed s \<Longrightarrow> strip s = s"
proof (cases s)
  case Nil
  then show ?thesis by (simp add: strip_def)
next
  case (Cons c cs)
  assume "trimmed s"
  with Cons have h: "\<not> is_space (hd s)" and l: "\<not> is_space (last s)" and ne: "s \<noteq> []"
    by (auto simp: trimmed_def)
  from h ne have "dropWhile is_space s = s" by (cases s) auto
  moreover from l ne have "dropWhile is_space (rev s) = rev s"
    by (cases "rev s") (auto simp: hd_rev[symmetric] simp del: hd_rev)
  ultimately show ?thesis by (simp add: strip_def)
qed

lemma strip_Unknown: "strip (str ''Unknown'') = str ''Unknown''"
  by (simp add: strip_def is_space_def str_def)

text \<open>
  C7, as amended: the extractor works on the link text with its surrounding whitespace
  removed. When that trimmed text contains the separator \<open>" by "\<close>, it is split at the
  first occurrence into a title and an author, each trimmed again; otherwise the
  trimmed text is the title and the author is \<open>"Unknown"\<close>. Either way neither has
  leading or trailing whitespace. (This is for an entry that has a link and whose URL
  \<open>urljoin\<close> resolves; the record is then emitted.)
\<close>

theorem ranked_entry_split:
  assumes "find_tag li (str ''a'') = Some link"
    and "urljoin e u (get_attr link (str ''href'') []) = Inr book_url"
  shows "\<exists>t a b. li_book e u n li = Inr (Some b) \<and> title b = PStr t \<and> author b = PStr a \<and>
           trimmed t \<and> trimmed a \<and>
           (if occurs_in (str '' by '') (strip (text_of link))
            then \<exists>x y. strip (text_of link) = x @ str '' by '' @ y \<and>
                   (\<forall>x' y'. strip (text_of link) = x' @ str '' by '' @ y' \<longrightarrow> length x \<le> length x') \<and>
                   t = strip x \<and> a = strip y
            else t = strip (text_of link) \<and> a = str ''Unknown'')"
proof -
  define tt where "tt = strip (text_of link)"
  have sep: "str '' by '' \<noteq> []" by (simp add: str_def)
  show ?thesis
  proof (cases "occurs_in (str '' by '') tt")
    case True
    with sep have "find_sep (str '' by '') tt \<noteq> None" by (simp add: find_sep_None_iff)
    then obtain x y where f: "find_sep (str '' by '') tt = Some (x, y)" by auto
    with sep have s: "split1 tt (str '' by '') = Inr [x, y]" by (simp add: split1_def)
    from find_sep_Some[OF sep f]
    have fs: "tt = x @ str '' by '' @ y"
      "\<forall>x' y'. tt = x' @ str '' by '' @ y' \<longrightarrow> length x \<le> length x'" by auto
    from assms True s
    obtain b where b: "li_book e u n li = Inr (Some b)" "title b = PStr (strip x)"
      "author b = PStr (strip y)"
      by (simp add: li_book_def tt_def[symmetric])
    from fs have "\<exists>x0 y0. tt = x0 @ str '' by '' @ y0 \<and>
        (\<forall>x' y'. tt = x' @ str '' by '' @ y' \<longrightarrow> length x0 \<le> length x') \<and>
        strip x = strip x0 \<and> strip y = strip y0"
      by blast
    with True b strip_trimmed[of x] strip_trimmed[of y]
    have "li_book e u n li = Inr (Some b) \<and> title b = PStr (strip x) \<and>
        author b = PStr (strip y) \<and> trimmed (strip x) \<and> trimmed (strip y) \<and>
        (if occurs_in (str '' by '') tt
         then \<exists>x0 y0. tt = x0 @ str '' by '' @ y0 \<and>
                (\<forall>x' y'. tt = x' @ str '' by '' @ y' \<longrightarrow> length x0 \<le> length x') \<and>
                strip x = strip x0 \<and> strip y = strip y0
         else strip x = tt \<and> strip y = str ''Unknown'')"
      by simp
    then show ?thesis unfolding tt_def[symmetric] by blast
  next
    case False
    have t: "trimmed tt" unfolding tt_def by (rule strip_trimmed)
    then have "strip tt = tt" by (rule strip_of_trimmed)
    with assms False
    obtain b where b: "li_book e u n li = Inr (Some b)" "title b = PStr tt"
      "author b = PStr (str ''Unknown'')"
      by (simp add: li_book_def tt_def[symmetric] strip_Unknown)
    have "trimmed (str ''Unknown'')"
      using strip_trimmed[of "str ''Unknown''"] by (simp add: strip_Unknown)
    with False b t
    have "li_book e u n li = Inr (Some b) \<and> title b = PStr tt \<and>
        author b = PStr (str ''Unknown'') \<and> trimmed tt \<and> trimmed (str ''Unknown'') \<and>
        (if occurs_in (str '' by '') tt
         then \<exists>x0 y0. tt = x0 @ str '' by '' @ y0 \<and>
                (\<forall>x' y'. tt = x' @ str '' by '' @ y' \<longrightarrow> length x0 \<le> length x') \<and>
                tt = strip x0 \<and> str ''Unknown'' = strip y0
         else tt = tt \<and> str ''Unknown'' = str ''Unknown'')"
      by simp
    then show ?thesis unfolding tt_def[symmetric] by blast
  qed
qed

theorem ranked_entry_split_witness:
  "find_tag (list_entry (str '' Emma  by Jane Austen by hand '')) (str ''a'')
     = Some (Elem (str ''a'') None [(str ''href'', str ''https://www.gutenberg.org/ebooks/1'')]
               [Text (str '' Emma  by Jane Austen by hand '')]) \<and>
   map (\<lambda>b. (title b, author b))
     (fst (gutenberg_loop (site mixed_page PNone) (str ''u'')
        [list_entry (str '' Emma  by Jane Austen by hand '')] [] empty_world))
     = [(PStr (str ''Emma''), PStr (str ''Jane Austen by hand''))]"
  using ranked_entry_split[of "list_entry (str '' Emma  by Jane Austen by hand '')"
      "Elem (str ''a'') None [(str ''href'', str ''https://www.gutenberg.org/ebooks/1'')]
         [Text (str '' Emma  by Jane Austen by hand '')]"
      "site mixed_page PNone" "str ''u''" "str ''https://www.gutenberg.org/ebooks/1''" 0]
  by (simp add: ranked_defs run_defs soup_defs page_defs strip_def is_space_def str_def)

text \<open>
  C7 as stated fails: the link text \<open>"Emma by "\<close> contains the separator, but it is not
  split: trimmed first, it ends in \<open>" by"\<close>, the title is \<open>"Emma by"\<close> and the author is
  \<open>"Unknown"\<close>.
\<close>

theorem ranked_entry_counterexample:
  "occurs_in (str '' by '') (str ''Emma by '') \<and>
   map (\<lambda>b. (title b, author b))
     (contribution (fst (scrape_gutenberg_top (site (ranked_page (str ''Emma by '')) PNone)
        empty_world)))
     = [(PStr (str ''Emma by''), PStr (str ''Unknown''))]"
  by (simp add: ranked_page_def ranked_defs run_defs soup_defs page_defs strip_def is_space_def
      str_def)




section \<open>The price across the three extractors\<close>




section \<open>The orchestrator\<close>










lemmas all_defs = tasks_def task_urls_def faulty_site_def mixed_page_def block_rated_zero_def
  emma_page_def run_all_scrapers_def get_price_comparison_def
  catalog_defs search_defs ranked_defs run_defs soup_defs page_defs float_defs str_def



text \<open>
  C3 is not what the code does. Every page of the run offers \<open>Emma\<close> at 5.00 pounds as a
  catalog item and lists \<open>Emma by Jane Austen\<close> in the ranked list, whose records have the
  price 0.0. The sort key \<open>x.price or float('inf')\<close> turns the price 0.0 into infinity, so
  in the group of \<open>Emma\<close> the record with the price 0.0 stands last, behind the records
  with the price 5.0: the group is not ascending by price.
\<close>

theorem price_comparison_puts_zero_last:
  "map_sum id (map (\<lambda>(t, g). (t, map price g)))
     (get_price_comparison (snd (run_all_scrapers (site emma_page (payload [])) empty_world)))
     = Inr [(PStr (str ''Emma''),
             [Some (Finite 5), Some (Finite 5), Some (Finite 5), Some (Finite 0)])] \<and>
   \<not> float_le (Finite 5) (Finite 0)"
  by (simp add: all_defs dict_contains_def dict_append_def sort_by_key_def price_key_def)

section \<open>The bound of the permit pool\<close>

lemma count_after_update:
  "i < length xs \<Longrightarrow>
     length (filter P (xs[i := v])) + (if P (xs ! i) then 1 else 0)
       = length (filter P xs) + (if P v then 1 else 0)"
proof (induction xs arbitrary: i)
  case Nil
  then show ?case by simp
next
  case (Cons x xs)
  show ?case
  proof (cases i)
    case 0
    then show ?thesis by simp
  next
    case (Suc k)
    with Cons.prems have "k < length xs" by simp
    from Cons.IH[OF this] Suc show ?thesis by simp
  qed
qed

lemma step_keeps_total:
  assumes "step s s'"
  shows "permits s' + in_flight s' = permits s + in_flight s \<and>
         length (places s') = length (places s)"
  using assms
proof cases
  case (acquire i)
  with count_after_update[of i "places s" holds_permit AtGet] show ?thesis
    by (simp add: in_flight_def)
next
  case (get_200 i)
  with count_after_update[of i "places s" holds_permit AtText] show ?thesis
    by (simp add: in_flight_def)
next
  case (get_other i)
  with count_after_update[of i "places s" holds_permit Returned] show ?thesis
    by (simp add: in_flight_def)
next
  case (text_read i)
  with count_after_update[of i "places s" holds_permit AtSleep] show ?thesis
    by (simp add: in_flight_def)
next
  case (text_raises i)
  with count_after_update[of i "places s" holds_permit Returned] show ?thesis
    by (simp add: in_flight_def)
next
  case (slept i)
  with count_after_update[of i "places s" holds_permit Returned] show ?thesis
    by (simp add: in_flight_def)
qed

text \<open>The free permits and the permits held always add up to the capacity.\<close>

lemma reachable_total:
  "reachable c n s \<Longrightarrow> permits s + in_flight s = c \<and> length (places s) = n"
proof (induction rule: reachable.induct)
  case start
  show ?case by (simp add: in_flight_def)
next
  case (later c n s s')
  with step_keeps_total[of s s'] show ?case by simp
qed

text \<open>
  C8: in every state that a run with capacity \<open>c\<close> and \<open>n\<close> tasks can reach, at most \<open>c\<close>
  tasks are inside \<open>async with self.semaphore\<close>, that is, hold a permit; with \<open>c = 2\<close>
  and five tasks, never more than two.
\<close>

theorem permits_bound_fetches:
  "reachable c n s \<Longrightarrow> in_flight s \<le> c"
  using reachable_total[of c n s] by simp

theorem permits_bound_fetches_witness:
  "reachable 2 5 \<lparr>permits = 0, places = [AtText, AtGet, AtAcquire, AtAcquire, AtAcquire]\<rparr> \<and>
   in_flight \<lparr>permits = 0, places = [AtText, AtGet, AtAcquire, AtAcquire, AtAcquire]\<rparr> = 2"
proof -
  have r0: "reachable 2 5 \<lparr>permits = 2, places = replicate 5 AtAcquire\<rparr>"
    by (rule reachable.start)
  have "step \<lparr>permits = 2, places = replicate 5 AtAcquire\<rparr>
     \<lparr>permits = 1, places = [AtGet, AtAcquire, AtAcquire, AtAcquire, AtAcquire]\<rparr>"
    using step.acquire[of 0 "\<lparr>permits = 2, places = replicate 5 AtAcquire\<rparr>"]
    by (simp add: numeral_eq_Suc)
  with r0 have r1: "reachable 2 5
     \<lparr>permits = 1, places = [AtGet, AtAcquire, AtAcquire, AtAcquire, AtAcquire]\<rparr>"
    by (rule reachable.later)
  have "step \<lparr>permits = 1, places = [AtGet, AtAcquire, AtAcquire, AtAcquire, AtAcquire]\<rparr>
     \<lparr>permits = 1, places = [AtText, AtAcquire, AtAcquire, AtAcquire, AtAcquire]\<rparr>"
    using step.get_200[of 0
        "\<lparr>permits = 1, places = [AtGet, AtAcquire, AtAcquire, AtAcquire, AtAcquire]\<rparr>"]
    by simp
  with r1 have r2: "reachable 2 5
     \<lparr>permits = 1, places = [AtText, AtAcquire, AtAcquire, AtAcquire, AtAcquire]\<rparr>"
    by (rule reachable.later)
  have "step \<lparr>permits = 1, places = [AtText, AtAcquire, AtAcquire, AtAcquire, AtAcquire]\<rparr>
     \<lparr>permits = 0, places = [AtText, AtGet, AtAcquire, AtAcquire, AtAcquire]\<rparr>"
    using step.acquire[of 1
        "\<lparr>permits = 1, places = [AtText, AtAcquire, AtAcquire, AtAcquire, AtAcquire]\<rparr>"]
    by simp
  with r2 have r3: "reachable 2 5
     \<lparr>permits = 0, places = [AtText, AtGet, AtAcquire, AtAcquire, AtAcquire]\<rparr>"
    by (rule reachable.later)
  from permits_bound_fetches[OF r3] r3 show ?thesis by (simp add: in_flight_def)
qed

end
